theory Spec2Isabelle
  imports Complex_Main "HOL-Library.Product_Lexorder" "HOL-Library.List_Lexorder"
    "HOL-Library.Char_ord" "HOL-Library.Multiset"
begin

section \<open>Exceptions, log records and effectful results\<close>

text \<open>
  The exceptions of the model are the subclasses of Python's \<open>Exception\<close> that
  \<open>data_loader.py\<close> names in a handler or that one of its own expressions raises.
  \<open>TimeoutException\<close> and \<open>NoSuchElementException\<close> are subclasses of selenium's
  \<open>WebDriverException\<close>; \<open>SessionException\<close> stands for every other subclass of it,
  \<open>OtherException\<close> for every other subclass of \<open>Exception\<close>. Exceptions outside
  \<open>Exception\<close> (\<open>KeyboardInterrupt\<close>, \<open>SystemExit\<close>) are not modelled.
\<close>

datatype exn =
    TimeoutException
  | NoSuchElementException
  | SessionException
  | ValueError
  | IndexError
  | TypeError
  | OtherException

definition is_WebDriverException :: "exn \<Rightarrow> bool" where
  "is_WebDriverException e =
     (e = TimeoutException \<or> e = NoSuchElementException \<or> e = SessionException)"

text \<open>One constructor for each call of \<open>logger.info\<close> and \<open>logger.error\<close> in the class.\<close>

datatype log =
    Info_url string
  | Info_table_html
  | Info_structure
  | Info_columns
  | Info_date_before
  | Info_yy_attempt
  | Info_yyyy_attempt
  | Info_date_after
  | Info_success nat
  | Err_date1
  | Err_date2
  | Err_column_count nat
  | Err_timeout
  | Err_no_element
  | Err_webdriver
  | Err_value
  | Err_unexpected
  | Info_quit
  | Err_quit

text \<open>
  A computation writes log records and then either raises (\<open>Inl\<close>) or returns
  (\<open>Inr\<close>). \<open>then_do\<close> is sequencing: the second step runs only when the first
  returned, and the records written so far are kept either way.
\<close>

type_synonym 'a run = "log list \<times> (exn + 'a)"

definition say :: "log \<Rightarrow> unit run" where
  "say m = ([m], Inr ())"

definition lift :: "exn + 'a \<Rightarrow> 'a run" where
  "lift r = ([], r)"

definition then_do :: "'a run \<Rightarrow> ('a \<Rightarrow> 'b run) \<Rightarrow> 'b run" where
  "then_do m f =
     (case m of
        (l, Inl e) \<Rightarrow> (l, Inl e)
      | (l, Inr x) \<Rightarrow> (case f x of (l', r) \<Rightarrow> (l @ l', r)))"

text \<open>\<open>xs.iloc[0]\<close>: the first element, \<open>IndexError\<close> on an empty column.\<close>

definition iloc0 :: "'a list \<Rightarrow> exn + 'a" where
  "iloc0 xs = (case xs of [] \<Rightarrow> Inl IndexError | x # _ \<Rightarrow> Inr x)"

section \<open>Strings\<close>

text \<open>
  A Python \<open>str\<close> is modelled by its UTF-8 bytes. The patterns the code replaces are
  whole code points, and UTF-8 is self-synchronising, so replacing on bytes and on code
  points agree. \<open>kabu\<close> is the unit suffix U+682A of the volume column.
\<close>

definition kabu :: string where
  "kabu = [CHR 0xE6, CHR 0xA0, CHR 0xAA]"

definition startswith :: "string \<Rightarrow> string \<Rightarrow> bool" where
  "startswith s p = (take (length p) s = p)"

text \<open>
  \<open>s.replace(old, new)\<close>: every non-overlapping occurrence, leftmost first. For an
  empty \<open>old\<close> Python inserts \<open>new\<close> before every character and at the end.
\<close>

fun replace_from :: "string \<Rightarrow> string \<Rightarrow> string \<Rightarrow> string" where
  "replace_from old new [] = []"
| "replace_from old new (c # cs) =
     (if startswith (c # cs) old
      then new @ replace_from old new (drop (length old - 1) cs)
      else c # replace_from old new cs)"

definition str_replace :: "string \<Rightarrow> string \<Rightarrow> string \<Rightarrow> string" where
  "str_replace s old new =
     (if old = [] then new @ concat (map (\<lambda>c. c # new) s) else replace_from old new s)"

section \<open>Numbers\<close>

text \<open>
  A number is its exact decimal value, a rational: the rounding of float64, its
  infinities and the difference between the int64 and float64 column types of pandas
  are not represented, so \<open>1234\<close> and \<open>1234.0\<close> are the same value. The null of a
  numeric column (\<open>NaN\<close>) is \<open>None\<close>.

  \<open>to_numeric1\<close> is what \<open>pd.to_numeric(..., errors='coerce')\<close> does to one string:
  an optional sign, digits with an optional fraction (at least one digit in all) give
  the value; any other string gives null, in particular the literal \<open>NaN\<close>. The model
  covers this plain decimal grammar only (ASCII digits, no exponent, no blanks).
\<close>

definition is_digit :: "char \<Rightarrow> bool" where
  "is_digit c = (c \<in> set ''0123456789'')"

definition digit_of :: "char \<Rightarrow> int" where
  "digit_of c = of_char c - 48"

definition digits_value :: "string \<Rightarrow> int" where
  "digits_value s = foldl (\<lambda>a c. 10 * a + digit_of c) 0 s"

definition unsigned_decimal :: "string \<Rightarrow> rat option" where
  "unsigned_decimal s =
     (let ip = takeWhile is_digit s; rest = dropWhile is_digit s
      in case rest of
           [] \<Rightarrow> (if ip = [] then None else Some (of_int (digits_value ip)))
         | c # fp \<Rightarrow>
             (if c = CHR ''.'' \<and> list_all is_digit fp \<and> ip @ fp \<noteq> []
              then Some (of_int (digits_value (ip @ fp)) / 10 ^ length fp)
              else None))"

definition to_numeric1 :: "string \<Rightarrow> rat option" where
  "to_numeric1 s =
     (case s of
        [] \<Rightarrow> None
      | c # cs \<Rightarrow>
          (if c = CHR ''-'' then map_option uminus (unsigned_decimal cs)
           else if c = CHR ''+'' then unsigned_decimal cs
           else unsigned_decimal s))"

definition to_numeric :: "string list \<Rightarrow> rat option list" where
  "to_numeric xs = map to_numeric1 xs"

section \<open>Dates\<close>

text \<open>A calendar date is (year, month, day), ordered lexicographically.\<close>

type_synonym date = "int \<times> int \<times> int"

definition is_leap :: "int \<Rightarrow> bool" where
  "is_leap y = ((y mod 4 = 0 \<and> y mod 100 \<noteq> 0) \<or> y mod 400 = 0)"

definition days_in_month :: "int \<Rightarrow> int \<Rightarrow> int" where
  "days_in_month y m =
     (if m = 2 then (if is_leap y then 29 else 28)
      else if m = 4 \<or> m = 6 \<or> m = 9 \<or> m = 11 then 30 else 31)"

definition valid_date :: "date \<Rightarrow> bool" where
  "valid_date d =
     (case d of (y, m, dd) \<Rightarrow> 1 \<le> y \<and> 1 \<le> m \<and> m \<le> 12 \<and> 1 \<le> dd \<and> dd \<le> days_in_month y m)"

text \<open>
  A cell of a parsed table. A text cell is \<open>Str\<close>; a numeric cell of the parsed table is
  represented by the text that \<open>str()\<close> gives for it, which is all that the code reads
  of it; \<open>NaN\<close> is the null of any column type (\<open>NaN\<close>, \<open>None\<close>, \<open>NaT\<close>); \<open>Stamp\<close>
  is a datetime64 value.
\<close>

datatype cell = Str string | NaN | Stamp date

definition is_Stamp :: "cell \<Rightarrow> bool" where
  "is_Stamp c = (case c of Stamp _ \<Rightarrow> True | _ \<Rightarrow> False)"

definition is_Str :: "cell \<Rightarrow> bool" where
  "is_Str c = (case c of Str _ \<Rightarrow> True | _ \<Rightarrow> False)"

definition stamp_of :: "cell \<Rightarrow> date" where
  "stamp_of c = (case c of Stamp d \<Rightarrow> d | _ \<Rightarrow> (0, 0, 0))"

definition str_of :: "cell \<Rightarrow> string" where
  "str_of c = (case c of Str s \<Rightarrow> s | _ \<Rightarrow> [])"

subsection \<open>Formatting\<close>

definition digit_char :: "int \<Rightarrow> char" where
  "digit_char n = char_of (48 + n mod 10)"

definition pad2 :: "int \<Rightarrow> string" where
  "pad2 n = [digit_char (n div 10), digit_char n]"

definition pad4 :: "int \<Rightarrow> string" where
  "pad4 n = [digit_char (n div 1000), digit_char (n div 100), digit_char (n div 10), digit_char n]"

definition render :: "char \<Rightarrow> date \<Rightarrow> string" where
  "render c d =
     (case d of (y, m, dd) \<Rightarrow>
        if c = CHR ''y'' then pad2 (y mod 100)
        else if c = CHR ''Y'' then pad4 y
        else if c = CHR ''m'' then pad2 m
        else if c = CHR ''d'' then pad2 dd
        else [CHR ''%'', c])"

text \<open>\<open>strftime\<close> for the directives \<open>%y %Y %m %d\<close> and literal characters.\<close>

fun strftime :: "date \<Rightarrow> string \<Rightarrow> string" where
  "strftime d [] = []"
| "strftime d [c] = [c]"
| "strftime d (a # b # fmt) =
     (if a = CHR ''%'' then render b d @ strftime d fmt else a # strftime d (b # fmt))"

text \<open>\<open>astype(str)\<close> on one cell.\<close>

definition astype_str :: "cell \<Rightarrow> string" where
  "astype_str c =
     (case c of Str s \<Rightarrow> s | NaN \<Rightarrow> ''nan'' | Stamp d \<Rightarrow> strftime d ''%Y-%m-%d'')"

subsection \<open>Parsing with a format\<close>

text \<open>
  \<open>pd.to_datetime(column, format=..., errors='coerce')\<close> compiles the format into a
  regular expression, matches it at the start of the value with the usual leftmost,
  first-alternative-first backtracking, and requires the match to end at the end of the
  value. The groups are those of the library:
  \<open>%y\<close> is \<open>\d\d\<close>, \<open>%Y\<close> is \<open>\d\d\d\d\<close>, \<open>%m\<close> is \<open>1[0-2]|0[1-9]|[1-9]\<close> and
  \<open>%d\<close> is \<open>3[0-1]|[1-2]\d|0[1-9]|[1-9]| [1-9]\<close>. Only these four directives are
  modelled (any other one counts as a bad directive, which raises \<open>ValueError\<close> whatever
  \<open>errors\<close> says), digits are the ASCII ones, and the range limit of the timestamp type is
  not represented.
\<close>

datatype item = Dir char | Lit char

fun parse_format :: "string \<Rightarrow> item list" where
  "parse_format [] = []"
| "parse_format [c] = [Lit c]"
| "parse_format (a # b # fmt) =
     (if a = CHR ''%'' then Dir b # parse_format fmt else Lit a # parse_format (b # fmt))"

definition nonzero_digits :: string where
  "nonzero_digits = ''123456789''"

definition month_words :: "string list" where
  "month_words =
     [''10'', ''11'', ''12''] @ map (\<lambda>c. [CHR ''0'', c]) nonzero_digits @
     map (\<lambda>c. [c]) nonzero_digits"

definition day_words :: "string list" where
  "day_words =
     [''30'', ''31''] @ concat (map (\<lambda>a. map (\<lambda>b. [a, b]) ''0123456789'') ''12'') @
     map (\<lambda>c. [CHR ''0'', c]) nonzero_digits @ map (\<lambda>c. [c]) nonzero_digits @
     map (\<lambda>c. [CHR '' '', c]) nonzero_digits"

definition digit_run :: "nat \<Rightarrow> string \<Rightarrow> string list" where
  "digit_run n s =
     (if n \<le> length s \<and> list_all is_digit (take n s) then [take n s] else [])"

text \<open>The alternatives of a directive's group, in the order the expression tries them.\<close>

definition words_of :: "char \<Rightarrow> string \<Rightarrow> string list" where
  "words_of c s =
     (if c = CHR ''y'' then digit_run 2 s
      else if c = CHR ''Y'' then digit_run 4 s
      else if c = CHR ''m'' then month_words
      else if c = CHR ''d'' then day_words
      else [])"

definition known_directive :: "item \<Rightarrow> bool" where
  "known_directive i = (case i of Lit _ \<Rightarrow> True | Dir c \<Rightarrow> c \<in> set ''yYmd'')"

fun first_some :: "'a option list \<Rightarrow> 'a option" where
  "first_some [] = None"
| "first_some (None # xs) = first_some xs"
| "first_some (Some x # xs) = Some x"

text \<open>
  \<open>regex_match\<close> returns the groups of the first match, latest first, and the text
  left after it.
\<close>

fun regex_match :: "item list \<Rightarrow> string \<Rightarrow> (char \<times> string) list \<Rightarrow>
    ((char \<times> string) list \<times> string) option" where
  "regex_match [] s g = Some (g, s)"
| "regex_match (Lit c # is) s g =
     (case s of [] \<Rightarrow> None | x # xs \<Rightarrow> if x = c then regex_match is xs g else None)"
| "regex_match (Dir c # is) s g =
     first_some (map (\<lambda>w. if startswith s w
                           then regex_match is (drop (length w) s) ((c, w) # g)
                           else None) (words_of c s))"

definition group_value :: "(char \<times> string) list \<Rightarrow> char \<Rightarrow> int option" where
  "group_value g c = map_option (\<lambda>w. digits_value (filter is_digit w)) (map_of g c)"

text \<open>
  The fields of a match: a two-digit year up to 68 is in 2000, from 69 on in 1900; a
  field without a directive takes the default of 1900-01-01.
\<close>

definition date_of_groups :: "(char \<times> string) list \<Rightarrow> date" where
  "date_of_groups g =
     (let y = (case group_value g (CHR ''Y'') of
                 Some v \<Rightarrow> v
               | None \<Rightarrow> (case group_value g (CHR ''y'') of
                             Some v \<Rightarrow> (if v \<le> 68 then 2000 + v else 1900 + v)
                           | None \<Rightarrow> 1900));
          m = (case group_value g (CHR ''m'') of Some v \<Rightarrow> v | None \<Rightarrow> 1);
          d = (case group_value g (CHR ''d'') of Some v \<Rightarrow> v | None \<Rightarrow> 1)
      in (y, m, d))"

definition strptime :: "string \<Rightarrow> string \<Rightarrow> date option" where
  "strptime s fmt =
     (case regex_match (parse_format fmt) s [] of
        None \<Rightarrow> None
      | Some (g, rest) \<Rightarrow>
          (if rest = [] \<and> valid_date (date_of_groups g) then Some (date_of_groups g)
           else None))"

definition to_datetime1 :: "cell \<Rightarrow> string \<Rightarrow> cell" where
  "to_datetime1 c fmt =
     (case c of
        Str s \<Rightarrow> (case strptime s fmt of Some d \<Rightarrow> Stamp d | None \<Rightarrow> NaN)
      | NaN \<Rightarrow> NaN
      | Stamp d \<Rightarrow> Stamp d)"

definition to_datetime :: "cell list \<Rightarrow> string \<Rightarrow> exn + cell list" where
  "to_datetime col fmt =
     (if list_all known_directive (parse_format fmt)
      then Inr (map (\<lambda>c. to_datetime1 c fmt) col)
      else Inl ValueError)"

text \<open>
  \<open>pd.api.types.is_datetime64_any_dtype\<close>: the column holds datetime64 values (and
  nulls) only. \<open>dt_strftime\<close> is \<open>column.dt.strftime(fmt)\<close>, which keeps nulls.
\<close>

definition is_datetime64_any_dtype :: "cell list \<Rightarrow> bool" where
  "is_datetime64_any_dtype col =
     (list_ex is_Stamp col \<and> list_all (\<lambda>c. \<not> is_Str c) col)"

definition dt_strftime :: "cell list \<Rightarrow> string \<Rightarrow> cell list" where
  "dt_strftime col fmt =
     map (\<lambda>c. case c of Stamp d \<Rightarrow> Str (strftime d fmt) | _ \<Rightarrow> NaN) col"

section \<open>Tables\<close>

text \<open>
  A DataFrame as \<open>pd.read_html\<close> returns it: the column labels and the data rows. A
  row that is shorter than the header reads as padded with nulls, as the parser pads it.
\<close>

record dataframe =
  columns :: "string list"
  data :: "cell list list"

definition cell_at :: "cell list \<Rightarrow> nat \<Rightarrow> cell" where
  "cell_at r j = (if j < length r then r ! j else NaN)"

definition column :: "dataframe \<Rightarrow> nat \<Rightarrow> cell list" where
  "column df j = map (\<lambda>r. cell_at r j) (data df)"

text \<open>
  The eight labels of line 109, in UTF-8:
  date, open, high, low, close, change, change in percent, volume.
\<close>

definition canonical_columns :: "string list" where
  "canonical_columns =
     [[CHR 0xE6, CHR 0x97, CHR 0xA5, CHR 0xE4, CHR 0xBB, CHR 0x98],
      [CHR 0xE5, CHR 0xA7, CHR 0x8B, CHR 0xE5, CHR 0x80, CHR 0xA4],
      [CHR 0xE9, CHR 0xAB, CHR 0x98, CHR 0xE5, CHR 0x80, CHR 0xA4],
      [CHR 0xE5, CHR 0xAE, CHR 0x89, CHR 0xE5, CHR 0x80, CHR 0xA4],
      [CHR 0xE7, CHR 0xB5, CHR 0x82, CHR 0xE5, CHR 0x80, CHR 0xA4],
      [CHR 0xE5, CHR 0x89, CHR 0x8D, CHR 0xE6, CHR 0x97, CHR 0xA5, CHR 0xE6, CHR 0xAF, CHR 0x94],
      [CHR 0xE5, CHR 0x89, CHR 0x8D, CHR 0xE6, CHR 0x97, CHR 0xA5, CHR 0xE6, CHR 0xAF, CHR 0x94,
       CHR 0xEF, CHR 0xBC, CHR 0x85],
      [CHR 0xE5, CHR 0xA3, CHR 0xB2, CHR 0xE8, CHR 0xB2, CHR 0xB7, CHR 0xE9, CHR 0xAB, CHR 0x98] @
        ''('' @ kabu @ '')'']"

text \<open>
  \<open>df.columns = names\<close>: pandas raises \<open>ValueError\<close> (length mismatch) unless there are
  as many names as columns.
\<close>

definition set_columns :: "dataframe \<Rightarrow> string list \<Rightarrow> exn + dataframe" where
  "set_columns df names =
     (if length names = length (columns df) then Inr (df\<lparr>columns := names\<rparr>)
      else Inl ValueError)"

text \<open>One row of the frame that \<open>get_stock_data\<close> returns, in the order of the labels.\<close>

record price_row =
  date :: cell
  open_price :: "rat option"
  high_price :: "rat option"
  low_price :: "rat option"
  close_price :: "rat option"
  change :: "rat option"
  change_percent :: "rat option"
  volume :: "rat option"

section \<open>The cleaning steps of \<open>get_stock_data\<close>\<close>

text \<open>
  Lines 115 to 117, for one of the five price columns: the string operations of line 116
  on one cell, then \<open>pd.to_numeric\<close> on the column.
\<close>

definition price_text :: "cell \<Rightarrow> string" where
  "price_text c = str_replace (str_replace (astype_str c) '','' []) ''---'' ''NaN''"

definition price_column :: "cell list \<Rightarrow> rat option list" where
  "price_column col = to_numeric (map price_text col)"

text \<open>Lines 120 and 121.\<close>

definition percent_text :: "cell \<Rightarrow> string" where
  "percent_text c = str_replace (str_replace (astype_str c) ''%'' []) ''---'' ''NaN''"

definition percent_column :: "cell list \<Rightarrow> rat option list" where
  "percent_column col = to_numeric (map percent_text col)"

text \<open>Lines 124 and 125.\<close>

definition volume_text :: "cell \<Rightarrow> string" where
  "volume_text c =
     str_replace (str_replace (str_replace (astype_str c) '','' []) kabu []) ''---'' ''NaN''"

definition volume_column :: "cell list \<Rightarrow> rat option list" where
  "volume_column col = to_numeric (map volume_text col)"

text \<open>Lines 132 and 133: a datetime64 column is written back as two-digit-year text.\<close>

definition date_texts :: "cell list \<Rightarrow> cell list" where
  "date_texts col =
     (if is_datetime64_any_dtype col then dt_strftime col ''%y/%m/%d'' else col)"

text \<open>
  Lines 136 to 147. The column is assigned before the \<open>logger.info\<close> that reads its
  first value, so a failure of that read leaves the converted column in place. Both
  handlers catch every \<open>Exception\<close>: the block itself never raises.
  \<open>cur\<close> is the date column, \<open>orig\<close> the copy made at line 129.
\<close>

definition date_fallback :: "cell list \<Rightarrow> cell list \<Rightarrow> log list \<times> cell list" where
  "date_fallback cur orig =
     (case to_datetime orig ''%Y/%m/%d'' of
        Inl e2 \<Rightarrow> ([Err_date1, Err_date2], cur)
      | Inr ds \<Rightarrow>
          (case iloc0 ds of
             Inl e2 \<Rightarrow> ([Err_date1, Err_date2], ds)
           | Inr v \<Rightarrow> ([Err_date1, Info_yyyy_attempt], ds)))"

definition convert_dates :: "cell list \<Rightarrow> cell list \<Rightarrow> log list \<times> cell list" where
  "convert_dates cur orig =
     (case to_datetime cur ''%y/%m/%d'' of
        Inl e \<Rightarrow> date_fallback cur orig
      | Inr ds \<Rightarrow>
          (case iloc0 ds of
             Inl e \<Rightarrow> date_fallback ds orig
           | Inr v \<Rightarrow> ([Info_yy_attempt], ds)))"

text \<open>The rows of the eight cleaned columns, which all have the length of the first.\<close>

definition build_rows :: "cell list \<Rightarrow> rat option list \<Rightarrow> rat option list \<Rightarrow> rat option list \<Rightarrow>
    rat option list \<Rightarrow> rat option list \<Rightarrow> rat option list \<Rightarrow> rat option list \<Rightarrow> price_row list" where
  "build_rows ds os hs ls cs gs ps vs =
     map (\<lambda>i. \<lparr>date = ds ! i, open_price = os ! i, high_price = hs ! i, low_price = ls ! i,
               close_price = cs ! i, change = gs ! i, change_percent = ps ! i,
               volume = vs ! i\<rparr>) [0..<length ds]"

text \<open>
  \<open>df.sort_values(date, ascending=False).reset_index(drop=True)\<close>. pandas sorts the
  rows whose key is not null and puts the others last, in their order (\<open>na_position\<close> is
  \<open>'last'\<close> by default); for a descending sort it reverses, sorts ascending and reverses
  again. The ascending sort is modelled by the stable sort of the list library; the
  default algorithm of pandas does not promise the order between equal keys. Keys of
  one kind are compared as Python compares them (text by code point); comparing a text
  with a timestamp raises \<open>TypeError\<close>.
\<close>

definition sort_values :: "price_row list \<Rightarrow> exn + price_row list" where
  "sort_values rows =
     (let keyed = filter (\<lambda>r. date r \<noteq> NaN) rows;
          nulls = filter (\<lambda>r. date r = NaN) rows
      in if list_all (\<lambda>r. is_Stamp (date r)) keyed
         then Inr (rev (sort_key (\<lambda>r. stamp_of (date r)) (rev keyed)) @ nulls)
         else if list_all (\<lambda>r. is_Str (date r)) keyed
         then Inr (rev (sort_key (\<lambda>r. str_of (date r)) (rev keyed)) @ nulls)
         else Inl TypeError)"

text \<open>
  Lines 108 to 162: everything that \<open>get_stock_data\<close> does with the first parsed
  table. The result \<open>None\<close> is Python's \<open>None\<close>.
\<close>

definition clean_table :: "dataframe \<Rightarrow> price_row list option run" where
  "clean_table df0 =
     (if length (columns df0) \<ge> 8
      then
        then_do (lift (set_columns df0 canonical_columns)) (\<lambda>df.
        then_do (lift (iloc0 (column df 0))) (\<lambda>_.
        then_do (say Info_date_before) (\<lambda>_.
          let os = price_column (column df 1);
              hs = price_column (column df 2);
              ls = price_column (column df 3);
              cs = price_column (column df 4);
              gs = price_column (column df 5);
              ps = percent_column (column df 6);
              vs = volume_column (column df 7);
              orig = column df 0;
              cur = date_texts (column df 0)
          in
        then_do (case convert_dates cur orig of (l, ds) \<Rightarrow> (l, Inr ds)) (\<lambda>ds.
        then_do (lift (iloc0 ds)) (\<lambda>_.
        then_do (say Info_date_after) (\<lambda>_.
        then_do (lift (sort_values (build_rows ds os hs ls cs gs ps vs))) (\<lambda>rows.
        then_do (say (Info_success (length rows))) (\<lambda>_.
          ([], Inr (Some rows))))))))))
      else
        then_do (say (Err_column_count (length (columns df0)))) (\<lambda>_. ([], Inr None)))"

section \<open>The scraper\<close>

text \<open>
  What the browser session answers to the calls of one fetch: \<open>driver.get\<close>, the wait
  for the container, \<open>find_element\<close> in it, \<open>get_attribute('outerHTML')\<close> (which may be
  \<open>None\<close>), and what the \<open>n\<close>-th call of \<open>driver.quit\<close> does (\<open>None\<close>: it returns).
  \<open>quits\<close> counts the calls of \<open>quit\<close> made so far.
\<close>

type_synonym element = nat

record webdriver =
  driver_get :: "string \<Rightarrow> exn option"
  wait_until :: "exn + element"
  find_element :: "element \<Rightarrow> exn + element"
  get_attribute :: "element \<Rightarrow> exn + string option"
  quit_outcome :: "nat \<Rightarrow> exn option"
  quits :: nat

text \<open>
  A \<open>StockScraper\<close> object: its attribute \<open>driver\<close>, absent when the constructor
  failed before the assignment.
\<close>

record StockScraper =
  driver :: "webdriver option"

definition raise_if :: "exn option \<Rightarrow> exn + unit" where
  "raise_if r = (case r of Some e \<Rightarrow> Inl e | None \<Rightarrow> Inr ())"

text \<open>
  Lines 75 to 104, the first part of the \<open>try\<close> block of \<open>get_stock_data\<close>: from the
  URL to the first parsed table. \<open>read_html\<close> is \<open>pd.read_html\<close>, the HTML parser of
  the library. Reading the attribute of an object without it raises
  \<open>AttributeError\<close>, and slicing \<open>None\<close> raises \<open>TypeError\<close>.
\<close>

definition load_table :: "(string \<Rightarrow> exn + dataframe list) \<Rightarrow> StockScraper \<Rightarrow> string \<Rightarrow>
    dataframe run" where
  "load_table read_html self stock_code =
     (let url = ''https://kabutan.jp/stock/kabuka?code='' @ stock_code in
      then_do (say (Info_url url)) (\<lambda>_.
      then_do (lift (case driver self of None \<Rightarrow> Inl OtherException | Some d \<Rightarrow> Inr d)) (\<lambda>d.
      then_do (lift (raise_if (driver_get d url))) (\<lambda>_.
      then_do (lift (wait_until d)) (\<lambda>stock_table_container.
      then_do (lift (find_element d stock_table_container)) (\<lambda>stock_table.
      then_do (lift (get_attribute d stock_table)) (\<lambda>attr.
      then_do (lift (case attr of None \<Rightarrow> Inl TypeError | Some h \<Rightarrow> Inr h)) (\<lambda>table_html.
      then_do (say Info_table_html) (\<lambda>_.
      then_do (lift (read_html table_html)) (\<lambda>dfs.
      then_do (lift (iloc0 dfs)) (\<lambda>df.
      then_do (say Info_structure) (\<lambda>_.
      then_do (say Info_columns) (\<lambda>_.
        ([], Inr df))))))))))))))"

text \<open>The whole \<open>try\<close> block, lines 75 to 162.\<close>

definition fetch_block :: "(string \<Rightarrow> exn + dataframe list) \<Rightarrow> StockScraper \<Rightarrow> string \<Rightarrow>
    price_row list option run" where
  "fetch_block read_html self stock_code =
     then_do (load_table read_html self stock_code) clean_table"

text \<open>The handlers of lines 164 to 178, in their order: each logs and returns \<open>None\<close>.\<close>

definition handler_log :: "exn \<Rightarrow> log" where
  "handler_log e =
     (if e = TimeoutException then Err_timeout
      else if e = NoSuchElementException then Err_no_element
      else if is_WebDriverException e then Err_webdriver
      else if e = ValueError then Err_value
      else Err_unexpected)"

definition get_stock_data :: "(string \<Rightarrow> exn + dataframe list) \<Rightarrow> StockScraper \<Rightarrow> string \<Rightarrow>
    price_row list option run" where
  "get_stock_data read_html self stock_code =
     (case fetch_block read_html self stock_code of
        (l, Inr r) \<Rightarrow> (l, Inr r)
      | (l, Inl e) \<Rightarrow> (l @ [handler_log e], Inr None))"

text \<open>
  \<open>close_driver\<close>, lines 180 to 187: nothing without the attribute; otherwise
  \<open>quit\<close> is called and its failure is logged. The object keeps its attribute.
\<close>

definition close_driver :: "StockScraper \<Rightarrow> StockScraper run" where
  "close_driver self =
     (case driver self of
        None \<Rightarrow> ([], Inr self)
      | Some d \<Rightarrow>
          (let self' = self\<lparr>driver := Some (d\<lparr>quits := Suc (quits d)\<rparr>)\<rparr>
           in case quit_outcome d (quits d) of
                None \<Rightarrow> ([Info_quit], Inr self')
              | Some e \<Rightarrow> ([Err_quit], Inr self')))"

section \<open>The returned rows, read off the successful path\<close>

text \<open>
  \<open>parsed_rows\<close> is the argument of \<open>sort_values\<close> when the first conversion of the
  dates returns, and \<open>sorted_rows\<close> its result when no date is a text; lemma
  \<open>clean_table_ok\<close> shows that this is what \<open>clean_table\<close> computes.
\<close>

definition parsed_rows :: "dataframe \<Rightarrow> price_row list" where
  "parsed_rows df =
     build_rows (map (\<lambda>c. to_datetime1 c ''%y/%m/%d'') (date_texts (column df 0)))
       (price_column (column df 1)) (price_column (column df 2)) (price_column (column df 3))
       (price_column (column df 4)) (price_column (column df 5)) (percent_column (column df 6))
       (volume_column (column df 7))"

definition sorted_rows :: "price_row list \<Rightarrow> price_row list" where
  "sorted_rows rows =
     rev (sort_key (\<lambda>r. stamp_of (date r)) (rev (filter (\<lambda>r. date r \<noteq> NaN) rows))) @
     filter (\<lambda>r. date r = NaN) rows"

section \<open>Concrete sessions and tables\<close>

text \<open>
  A session in which every call of a fetch succeeds, and one whose \<open>quit\<close> raises from
  its second call on; a parser that returns one given table.
\<close>

definition browser_ok :: webdriver where
  "browser_ok =
     \<lparr>driver_get = (\<lambda>url. None), wait_until = Inr 0, find_element = (\<lambda>e. Inr 1),
      get_attribute = (\<lambda>e. Inr (Some ''<table></table>'')), quit_outcome = (\<lambda>n. None),
      quits = 0\<rparr>"

definition browser_quit_fails :: webdriver where
  "browser_quit_fails =
     browser_ok\<lparr>quit_outcome := (\<lambda>n. if n = 0 then None else Some SessionException)\<rparr>"

definition browser_no_table :: webdriver where
  "browser_no_table = browser_ok\<lparr>find_element := (\<lambda>e. Inl NoSuchElementException)\<rparr>"

definition browser_timeout :: webdriver where
  "browser_timeout = browser_ok\<lparr>wait_until := Inl TimeoutException\<rparr>"

definition scraper_ok :: StockScraper where
  "scraper_ok = \<lparr>driver = Some browser_ok\<rparr>"

definition read_as :: "dataframe \<Rightarrow> string \<Rightarrow> exn + dataframe list" where
  "read_as df html = Inr [df]"

definition header :: "nat \<Rightarrow> string list" where
  "header n = replicate n ''col''"

text \<open>A data row with the given date cell and fixed cells in the seven other columns.\<close>

definition row_dated :: "cell \<Rightarrow> cell list" where
  "row_dated d =
     [d, Str ''1,234'', Str ''---'', Str ''n/a'', Str ''-5.5'', Str ''+12'', Str ''12.5%'',
      Str (''1,000,000'' @ kabu)]"

definition cleaned :: "cell \<Rightarrow> price_row" where
  "cleaned d =
     \<lparr>date = d, open_price = Some 1234, high_price = None, low_price = None,
      close_price = Some (- 5.5), change = Some 12, change_percent = Some 12.5,
      volume = Some 1000000\<rparr>"

definition table_four_digit_year :: dataframe where
  "table_four_digit_year = \<lparr>columns = header 8, data = [row_dated (Str ''2023/01/15'')]\<rparr>"

definition table_one_day :: dataframe where
  "table_one_day = \<lparr>columns = header 8, data = [row_dated (Str ''23/01/15'')]\<rparr>"

definition table_three_days :: dataframe where
  "table_three_days =
     \<lparr>columns = header 8,
      data = [row_dated (Str ''23/01/01''), row_dated (Str ''23/01/03''),
              row_dated (Str ''23/01/02'')]\<rparr>"

definition table_some_bad_dates :: dataframe where
  "table_some_bad_dates =
     \<lparr>columns = header 8,
      data = [row_dated (Str ''no date''), row_dated (Str ''23/01/01''), row_dated NaN,
              row_dated (Str ''23/01/03'')]\<rparr>"

definition table_nine_columns :: dataframe where
  "table_nine_columns =
     \<lparr>columns = header 9, data = [row_dated (Str ''23/01/15'') @ [Str ''extra'']]\<rparr>"

definition table_seven_columns :: dataframe where
  "table_seven_columns =
     \<lparr>columns = header 7, data = [butlast (row_dated (Str ''23/01/15''))]\<rparr>"

definition table_no_rows :: dataframe where
  "table_no_rows = \<lparr>columns = header 8, data = []\<rparr>"

definition url_of :: "string \<Rightarrow> string" where
  "url_of stock_code = ''https://kabutan.jp/stock/kabuka?code='' @ stock_code"

definition load_logs :: "string \<Rightarrow> log list" where
  "load_logs stock_code =
     [Info_url (url_of stock_code), Info_table_html, Info_structure, Info_columns]"

section \<open>Sequencing and the library calls\<close>

lemma then_do_Inl [simp]: "then_do (l, Inl e) f = (l, Inl e)"
  by (simp add: then_do_def)

lemma then_do_Inr [simp]: "then_do (l, Inr x) f = (l @ fst (f x), snd (f x))"
  by (simp add: then_do_def split: prod.splits)

lemma then_do_say [simp]: "then_do (say m) f = (m # fst (f ()), snd (f ()))"
  by (simp add: say_def)

lemma then_do_lift_Inr [simp]: "then_do (lift (Inr x)) f = f x"
  by (simp add: lift_def)

lemma then_do_lift_Inl [simp]: "then_do (lift (Inl e)) f = ([], Inl e)"
  by (simp add: lift_def)

lemma iloc0_nonempty: "xs \<noteq> [] \<Longrightarrow> iloc0 xs = Inr (hd xs)"
  by (cases xs) (simp_all add: iloc0_def)

text \<open>With the two formats of the code, \<open>to_datetime\<close> never raises.\<close>

lemma to_datetime_yy:
  "to_datetime col ''%y/%m/%d'' = Inr (map (\<lambda>c. to_datetime1 c ''%y/%m/%d'') col)"
  by (simp add: to_datetime_def known_directive_def)

lemma to_datetime_yyyy:
  "to_datetime col ''%Y/%m/%d'' = Inr (map (\<lambda>c. to_datetime1 c ''%Y/%m/%d'') col)"
  by (simp add: to_datetime_def known_directive_def)

text \<open>
  So on a column with a first value the handlers of lines 139 and 146 are never entered:
  the second format is not tried, whatever the first conversion gave.
\<close>

lemma convert_dates_nonempty:
  "cur \<noteq> [] \<Longrightarrow>
   convert_dates cur orig = ([Info_yy_attempt], map (\<lambda>c. to_datetime1 c ''%y/%m/%d'') cur)"
  by (cases cur) (simp_all add: convert_dates_def to_datetime_yy iloc0_def)

lemma to_datetime1_not_Str: "\<not> is_Str (to_datetime1 c fmt)"
  by (simp add: to_datetime1_def is_Str_def split: cell.splits option.splits)

lemma length_date_texts [simp]: "length (date_texts col) = length col"
  by (simp add: date_texts_def dt_strftime_def)

lemma length_column [simp]: "length (column df j) = length (data df)"
  by (simp add: column_def)

lemma column_set_columns [simp]: "column (df\<lparr>columns := ns\<rparr>) j = column df j"
  by (simp add: column_def)

lemma length_canonical_columns: "length canonical_columns = 8"
  by (simp add: canonical_columns_def)

section \<open>Sorting\<close>

lemma length_parsed_rows [simp]: "length (parsed_rows df) = length (data df)"
  by (simp add: parsed_rows_def build_rows_def)

lemma date_parsed_rows: "r \<in> set (parsed_rows df) \<Longrightarrow> \<not> is_Str (date r)"
  by (auto simp: parsed_rows_def build_rows_def to_datetime1_not_Str)

lemma sort_values_no_Str:
  assumes "\<forall>r\<in>set rows. \<not> is_Str (date r)"
  shows "sort_values rows = Inr (sorted_rows rows)"
proof -
  have "list_all (\<lambda>r. is_Stamp (date r)) (filter (\<lambda>r. date r \<noteq> NaN) rows)"
    using assms by (auto simp: list_all_iff is_Stamp_def is_Str_def split: cell.splits)
  then show ?thesis by (simp add: sort_values_def sorted_rows_def)
qed

lemma length_sorted_rows [simp]: "length (sorted_rows rows) = length rows"
proof -
  have "length (filter (\<lambda>r. date r \<noteq> NaN) rows) + length (filter (\<lambda>r. date r = NaN) rows) =
        length rows"
    using sum_length_filter_compl [of "\<lambda>r. date r = NaN" rows] by (simp add: add.commute)
  then show ?thesis by (simp add: sorted_rows_def)
qed

lemma mset_sorted_rows [simp]: "mset (sorted_rows rows) = mset rows"
proof -
  have "mset (filter (\<lambda>r. date r \<noteq> NaN) rows) + mset (filter (\<lambda>r. date r = NaN) rows) =
        mset rows"
    by (induction rows) simp_all
  then show ?thesis by (simp add: sorted_rows_def)
qed

lemma set_sorted_rows [simp]: "set (sorted_rows rows) = set rows"
  by (metis mset_sorted_rows set_mset_mset)

lemma keyed_sorted_rows:
  "filter (\<lambda>r. date r \<noteq> NaN) (sorted_rows rows) =
   rev (sort_key (\<lambda>r. stamp_of (date r)) (rev (filter (\<lambda>r. date r \<noteq> NaN) rows)))"
proof -
  have "filter (\<lambda>r. date r \<noteq> NaN) (sort_key (\<lambda>r. stamp_of (date r)) xs) =
        sort_key (\<lambda>r. stamp_of (date r)) xs"
    if "\<forall>r\<in>set xs. date r \<noteq> NaN" for xs
    using that by (simp add: filter_id_conv)
  then show ?thesis
    by (simp add: sorted_rows_def rev_filter [symmetric] filter_empty_conv)
qed

lemma nulls_sorted_rows:
  "filter (\<lambda>r. date r = NaN) (sorted_rows rows) = filter (\<lambda>r. date r = NaN) rows"
proof -
  have "filter (\<lambda>r. date r = NaN) (sort_key (\<lambda>r. stamp_of (date r)) xs) = []"
    if "\<forall>r\<in>set xs. date r \<noteq> NaN" for xs
    using that by (simp add: filter_empty_conv)
  then show ?thesis
    by (simp add: sorted_rows_def rev_filter [symmetric])
qed

lemma sorted_rows_split:
  "sorted_rows rows =
   filter (\<lambda>r. date r \<noteq> NaN) (sorted_rows rows) @ filter (\<lambda>r. date r = NaN) (sorted_rows rows)"
  by (simp add: keyed_sorted_rows nulls_sorted_rows) (simp add: sorted_rows_def)

lemma sorted_rows_descending:
  "sorted_wrt (\<lambda>a b. stamp_of (date b) \<le> stamp_of (date a))
     (filter (\<lambda>r. date r \<noteq> NaN) (sorted_rows rows))"
proof -
  have "sorted (map (\<lambda>r. stamp_of (date r)) (sort_key (\<lambda>r. stamp_of (date r)) xs))" for xs
    by (rule sorted_sort_key)
  then have "sorted_wrt (\<lambda>a b. stamp_of (date a) \<le> stamp_of (date b))
               (sort_key (\<lambda>r. stamp_of (date r)) xs)" for xs
    by (simp add: sorted_map)
  then show ?thesis
    by (simp add: keyed_sorted_rows sorted_wrt_rev)
qed

section \<open>The four ways through \<open>clean_table\<close>\<close>

lemma clean_table_ok:
  assumes "length (columns df) = 8" "data df \<noteq> []"
  shows "clean_table df =
     ([Info_date_before, Info_yy_attempt, Info_date_after, Info_success (length (data df))],
      Inr (Some (sorted_rows (parsed_rows df))))"
proof -
  have c: "column df 0 \<noteq> []" using assms(2) by (simp add: column_def)
  have d: "date_texts (column df 0) \<noteq> []"
    using c by (metis length_date_texts length_0_conv)
  have m: "map (\<lambda>c. to_datetime1 c ''%y/%m/%d'') (date_texts (column df 0)) \<noteq> []"
    using d by simp
  have s: "sort_values (parsed_rows df) = Inr (sorted_rows (parsed_rows df))"
    by (rule sort_values_no_Str) (simp add: date_parsed_rows)
  have k: "set_columns df canonical_columns = Inr (df\<lparr>columns := canonical_columns\<rparr>)"
    using assms(1) by (simp add: set_columns_def length_canonical_columns)
  show ?thesis
    using assms(1)
    by (simp add: clean_table_def k iloc0_nonempty [OF c] iloc0_nonempty [OF m]
        convert_dates_nonempty [OF d] Let_def parsed_rows_def [symmetric] s
        del: One_nat_def)
qed

lemma clean_table_too_many:
  assumes "length (columns df) > 8"
  shows "clean_table df = ([], Inl ValueError)"
  using assms by (simp add: clean_table_def set_columns_def length_canonical_columns)

lemma clean_table_no_rows:
  assumes "length (columns df) = 8" "data df = []"
  shows "clean_table df = ([], Inl IndexError)"
  using assms
  by (simp add: clean_table_def set_columns_def length_canonical_columns iloc0_def column_def)

lemma clean_table_too_few:
  assumes "length (columns df) < 8"
  shows "clean_table df = ([Err_column_count (length (columns df))], Inr None)"
  using assms by (simp add: clean_table_def)

section \<open>The paths through \<open>get_stock_data\<close>\<close>

lemma then_do_eq_Inr:
  "then_do m f = (l, Inr y) \<longleftrightarrow> (\<exists>l1 x l2. m = (l1, Inr x) \<and> f x = (l2, Inr y) \<and> l = l1 @ l2)"
  by (cases m; cases "snd m") (auto simp: then_do_def split: prod.splits)

lemma load_table_logs:
  assumes "load_table rh self code = (l, Inr df)"
  shows "l = load_logs code"
  using assms
  by (auto simp add: load_table_def Let_def then_do_eq_Inr say_def lift_def load_logs_def
      url_of_def
      simp del: then_do_say then_do_lift_Inr then_do_lift_Inl then_do_Inr then_do_Inl)

lemma load_table_ok:
  "load_table (read_as df) scraper_ok code = (load_logs code, Inr df)"
  by (simp add: load_table_def load_logs_def url_of_def raise_if_def iloc0_def Let_def
      read_as_def scraper_ok_def browser_ok_def)

lemma get_stock_data_loaded:
  assumes "load_table rh self code = (l0, Inr df)"
  shows "get_stock_data rh self code =
     (case clean_table df of
        (l, Inr r) \<Rightarrow> (l0 @ l, Inr r)
      | (l, Inl e) \<Rightarrow> (l0 @ l @ [handler_log e], Inr None))"
  using assms
  by (simp add: get_stock_data_def fetch_block_def split: prod.splits sum.splits)

lemma get_stock_data_not_loaded:
  assumes "load_table rh self code = (l0, Inl e)"
  shows "get_stock_data rh self code = (l0 @ [handler_log e], Inr None)"
  using assms by (simp add: get_stock_data_def fetch_block_def)

lemma get_stock_data_returns: "\<exists>l r. get_stock_data rh self code = (l, Inr r)"
  by (simp add: get_stock_data_def split: prod.splits sum.splits)

lemma get_stock_data_Some:
  assumes "get_stock_data rh self code = (l, Inr (Some rows))"
  shows "\<exists>l0 df. load_table rh self code = (l0, Inr df) \<and> length (columns df) = 8 \<and>
           data df \<noteq> [] \<and> rows = sorted_rows (parsed_rows df)"
proof -
  obtain l0 r0 where lt: "load_table rh self code = (l0, r0)" by (cases "load_table rh self code")
  show ?thesis
  proof (cases r0)
    case (Inl e)
    with lt assms show ?thesis by (simp add: get_stock_data_not_loaded)
  next
    case (Inr df)
    note ld = lt [unfolded Inr]
    consider "length (columns df) < 8" | "length (columns df) > 8"
      | "length (columns df) = 8" "data df = []" | "length (columns df) = 8" "data df \<noteq> []"
      by linarith
    then show ?thesis
    proof cases
      case 1
      with assms ld show ?thesis by (simp add: get_stock_data_loaded clean_table_too_few)
    next
      case 2
      with assms ld show ?thesis by (simp add: get_stock_data_loaded clean_table_too_many)
    next
      case 3
      with assms ld show ?thesis by (simp add: get_stock_data_loaded clean_table_no_rows)
    next
      case 4
      with assms ld show ?thesis by (auto simp: get_stock_data_loaded clean_table_ok)
    qed
  qed
qed

lemma get_stock_data_ok:
  assumes "load_table rh self code = (l0, Inr df)" "length (columns df) = 8" "data df \<noteq> []"
  shows "get_stock_data rh self code =
     (l0 @ [Info_date_before, Info_yy_attempt, Info_date_after, Info_success (length (data df))],
      Inr (Some (sorted_rows (parsed_rows df))))"
  using assms by (simp add: get_stock_data_loaded clean_table_ok)

section \<open>The cells of the returned rows\<close>

lemma parsed_rows_nth:
  assumes "i < length (data df)"
  shows "parsed_rows df ! i =
     \<lparr>date = to_datetime1 (date_texts (column df 0) ! i) ''%y/%m/%d'',
      open_price = to_numeric1 (price_text (cell_at (data df ! i) 1)),
      high_price = to_numeric1 (price_text (cell_at (data df ! i) 2)),
      low_price = to_numeric1 (price_text (cell_at (data df ! i) 3)),
      close_price = to_numeric1 (price_text (cell_at (data df ! i) 4)),
      change = to_numeric1 (price_text (cell_at (data df ! i) 5)),
      change_percent = to_numeric1 (percent_text (cell_at (data df ! i) 6)),
      volume = to_numeric1 (volume_text (cell_at (data df ! i) 7))\<rparr>"
  using assms
  by (simp add: parsed_rows_def build_rows_def column_def price_column_def percent_column_def
      volume_column_def to_numeric_def del: One_nat_def)

lemma date_texts_Str:
  assumes "i < length col" "col ! i = Str s"
  shows "date_texts col = col"
proof -
  have "Str s \<in> set col" using assms by (metis nth_mem)
  then have "\<not> list_all (\<lambda>c. \<not> is_Str c) col"
    by (force simp: list_all_iff is_Str_def)
  then show ?thesis by (simp add: date_texts_def is_datetime64_any_dtype_def)
qed

lemma parsed_rows_date_Str:
  assumes "i < length (data df)" "cell_at (data df ! i) 0 = Str s"
  shows "date (parsed_rows df ! i) = to_datetime1 (Str s) ''%y/%m/%d''"
proof -
  have c: "column df 0 ! i = Str s" using assms by (simp add: column_def)
  have "date_texts (column df 0) = column df 0"
    using date_texts_Str [of i "column df 0" s] assms(1) c by simp
  then show ?thesis using assms(1) c by (simp add: parsed_rows_nth)
qed

section \<open>Claims\<close>

text \<open>
  C1. The claim: a date that fails as \<open>YY/MM/DD\<close> and is valid as \<open>YYYY/MM/DD\<close> is
  parsed by the second stage from the original string. The code asks the first conversion
  to coerce failures to null, so it returns, the handler of line 139 is not entered and
  the second format is never tried: for the one-row table dated \<open>2023/01/15\<close>, a text
  that the four-digit format parses and the two-digit format does not, the returned row
  has a null date.
\<close>

theorem four_digit_year_date_is_null:
  "strptime ''2023/01/15'' ''%y/%m/%d'' = None \<and>
   strptime ''2023/01/15'' ''%Y/%m/%d'' = Some (2023, 1, 15) \<and>
   get_stock_data (read_as table_four_digit_year) scraper_ok ''0000'' =
     (load_logs ''0000'' @ [Info_date_before, Info_yy_attempt, Info_date_after, Info_success 1],
      Inr (Some [cleaned NaN]))"
  by code_simp

text \<open>
  C2. The claim: a table with more than 8 columns keeps its first 8 and is returned
  cleaned. The code passes the gate of line 108, and the assignment of the 8 labels to
  more than 8 columns at line 109 raises \<open>ValueError\<close>, which the handler of line 173
  turns into \<open>None\<close>.
\<close>

theorem more_than_eight_columns_returns_None:
  assumes "load_table read_html self stock_code = (l0, Inr df)"
    and "length (columns df) > 8"
  shows "get_stock_data read_html self stock_code = (l0 @ [Err_value], Inr None)"
  using assms
  by (simp add: get_stock_data_loaded clean_table_too_many handler_log_def
      is_WebDriverException_def)

theorem more_than_eight_columns_witness:
  "load_table (read_as table_nine_columns) scraper_ok ''0000'' =
     (load_logs ''0000'', Inr table_nine_columns) \<and>
   length (columns table_nine_columns) > 8 \<and>
   get_stock_data (read_as table_nine_columns) scraper_ok ''0000'' =
     (load_logs ''0000'' @ [Err_value], Inr None)"
proof -
  have h1: "load_table (read_as table_nine_columns) scraper_ok ''0000'' =
      (load_logs ''0000'', Inr table_nine_columns)"
    by (rule load_table_ok)
  have h2: "length (columns table_nine_columns) > 8"
    by (simp add: table_nine_columns_def header_def)
  show ?thesis
    using h1 h2 more_than_eight_columns_returns_None [OF h1 h2] by simp
qed

text \<open>
  C3. The claim: a table with at least 8 columns and no data row gives an empty series,
  not \<open>None\<close>. In the code the \<open>logger.info\<close> of line 112 reads the first date of a
  column that has none; the \<open>IndexError\<close> reaches the last handler (with more than 8
  columns the \<open>ValueError\<close> of line 109 comes first), and the result is \<open>None\<close>.
\<close>

theorem no_rows_returns_None:
  assumes "load_table read_html self stock_code = (l0, Inr df)"
    and "length (columns df) \<ge> 8"
    and "data df = []"
  shows "snd (get_stock_data read_html self stock_code) = Inr None \<and>
         (length (columns df) = 8 \<longrightarrow>
            get_stock_data read_html self stock_code = (l0 @ [Err_unexpected], Inr None))"
proof (cases "length (columns df) = 8")
  case True
  with assms show ?thesis
    by (simp add: get_stock_data_loaded clean_table_no_rows handler_log_def
        is_WebDriverException_def)
next
  case False
  with assms(2) have "length (columns df) > 8" by simp
  with assms(1) False show ?thesis
    by (simp add: get_stock_data_loaded clean_table_too_many)
qed

theorem no_rows_witness:
  "load_table (read_as table_no_rows) scraper_ok ''0000'' = (load_logs ''0000'', Inr table_no_rows) \<and>
   length (columns table_no_rows) = 8 \<and> data table_no_rows = [] \<and>
   get_stock_data (read_as table_no_rows) scraper_ok ''0000'' =
     (load_logs ''0000'' @ [Err_unexpected], Inr None)"
proof -
  have h1: "load_table (read_as table_no_rows) scraper_ok ''0000'' =
      (load_logs ''0000'', Inr table_no_rows)"
    by (rule load_table_ok)
  have h2: "length (columns table_no_rows) = 8"
    by (simp add: table_no_rows_def header_def)
  have h3: "data table_no_rows = []"
    by (simp add: table_no_rows_def)
  have h2': "length (columns table_no_rows) \<ge> 8" using h2 by simp
  show ?thesis
    using h1 h2 h3 no_rows_returns_None [OF h1 h2' h3] by simp
qed

text \<open>
  C5. A table with fewer than 8 columns gives \<open>None\<close>: the \<open>try\<close> block returns it
  from the \<open>else\<close> branch of line 160 after logging the column count, and no handler
  runs. When the table element is missing, the block raises instead and the handler of
  line 167 logs another record.
\<close>

theorem fewer_than_eight_columns_returns_None:
  assumes "load_table read_html self stock_code = (l0, Inr df)"
    and "length (columns df) < 8"
  shows "get_stock_data read_html self stock_code =
           (load_logs stock_code @ [Err_column_count (length (columns df))], Inr None) \<and>
         fetch_block read_html self stock_code =
           (load_logs stock_code @ [Err_column_count (length (columns df))], Inr None) \<and>
         Err_no_element \<notin> set (fst (get_stock_data read_html self stock_code)) \<and>
         (\<forall>rh' self' code' l'.
            fetch_block rh' self' code' = (l', Inl NoSuchElementException) \<longrightarrow>
            get_stock_data rh' self' code' = (l' @ [Err_no_element], Inr None))"
proof -
  have l0: "l0 = load_logs stock_code"
    using assms(1) by (rule load_table_logs)
  have g: "get_stock_data read_html self stock_code =
      (load_logs stock_code @ [Err_column_count (length (columns df))], Inr None)"
    using assms l0 by (simp add: get_stock_data_loaded clean_table_too_few)
  have f: "fetch_block read_html self stock_code =
      (load_logs stock_code @ [Err_column_count (length (columns df))], Inr None)"
    using assms l0 by (simp add: fetch_block_def clean_table_too_few)
  have n: "Err_no_element \<notin> set (fst (get_stock_data read_html self stock_code))"
    by (simp add: g load_logs_def)
  have h: "\<forall>rh' self' code' l'.
      fetch_block rh' self' code' = (l', Inl NoSuchElementException) \<longrightarrow>
      get_stock_data rh' self' code' = (l' @ [Err_no_element], Inr None)"
    by (simp add: get_stock_data_def handler_log_def)
  show ?thesis using g f n h by blast
qed

theorem fewer_than_eight_columns_witness:
  "load_table (read_as table_seven_columns) scraper_ok ''0000'' =
     (load_logs ''0000'', Inr table_seven_columns) \<and>
   length (columns table_seven_columns) < 8 \<and>
   get_stock_data (read_as table_seven_columns) scraper_ok ''0000'' =
     (load_logs ''0000'' @ [Err_column_count 7], Inr None) \<and>
   fetch_block (read_as table_seven_columns) \<lparr>driver = Some browser_no_table\<rparr> ''0000'' =
     ([Info_url (url_of ''0000'')], Inl NoSuchElementException) \<and>
   get_stock_data (read_as table_seven_columns) \<lparr>driver = Some browser_no_table\<rparr> ''0000'' =
     ([Info_url (url_of ''0000''), Err_no_element], Inr None)"
proof -
  have h1: "load_table (read_as table_seven_columns) scraper_ok ''0000'' =
      (load_logs ''0000'', Inr table_seven_columns)"
    by (rule load_table_ok)
  have h2: "length (columns table_seven_columns) < 8"
    by (simp add: table_seven_columns_def header_def)
  have c: "length (columns table_seven_columns) = 7"
    by (simp add: table_seven_columns_def header_def)
  have h3: "fetch_block (read_as table_seven_columns) \<lparr>driver = Some browser_no_table\<rparr> ''0000'' =
      ([Info_url (url_of ''0000'')], Inl NoSuchElementException)"
    by (simp add: fetch_block_def load_table_def url_of_def raise_if_def Let_def
        browser_no_table_def browser_ok_def)
  show ?thesis
    using h1 h2 h3 c fewer_than_eight_columns_returns_None [OF h1 h2] by simp
qed



text \<open>
  C10. Whenever \<open>get_stock_data\<close> returns a frame, the rows with a null date come
  after all the rows with a date: the frame is its dated rows followed by its undated
  rows, and below a row with a null date every row has a null date.
\<close>

theorem null_dates_come_last:
  assumes "get_stock_data read_html self stock_code = (l, Inr (Some rows))"
  shows "rows = filter (\<lambda>r. date r \<noteq> NaN) rows @ filter (\<lambda>r. date r = NaN) rows \<and>
         (\<forall>i j. i < j \<and> j < length rows \<and> date (rows ! i) = NaN \<longrightarrow> date (rows ! j) = NaN)"
proof -
  obtain l0 df where rows: "rows = sorted_rows (parsed_rows df)"
    using get_stock_data_Some [OF assms] by blast
  have split: "rows = filter (\<lambda>r. date r \<noteq> NaN) rows @ filter (\<lambda>r. date r = NaN) rows"
    unfolding rows by (rule sorted_rows_split)
  define ks where "ks = filter (\<lambda>r. date r \<noteq> NaN) rows"
  define ns where "ns = filter (\<lambda>r. date r = NaN) rows"
  have eq: "rows = ks @ ns" using split by (simp add: ks_def ns_def)
  have k: "\<forall>r\<in>set ks. date r \<noteq> NaN" by (simp add: ks_def)
  have n: "\<forall>r\<in>set ns. date r = NaN" by (simp add: ns_def)
  have "date (rows ! j) = NaN"
    if "i < j" "j < length rows" "date (rows ! i) = NaN" for i j
  proof -
    have "\<not> i < length ks"
    proof
      assume "i < length ks"
      then have "rows ! i \<in> set ks" by (simp add: eq nth_append)
      with k that(3) show False by simp
    qed
    then have "\<not> j < length ks" using that(1) by simp
    moreover have "j - length ks < length ns" using that(2) calculation by (simp add: eq)
    ultimately have "rows ! j \<in> set ns" by (simp add: eq nth_append)
    with n show ?thesis by simp
  qed
  then show ?thesis using split by blast
qed

theorem null_dates_come_last_witness:
  "get_stock_data (read_as table_some_bad_dates) scraper_ok ''0000'' =
     (load_logs ''0000'' @ [Info_date_before, Info_yy_attempt, Info_date_after, Info_success 4],
      Inr (Some [cleaned (Stamp (2023, 1, 3)), cleaned (Stamp (2023, 1, 1)), cleaned NaN,
                 cleaned NaN])) \<and>
   map (\<lambda>r. to_datetime1 (hd r) ''%y/%m/%d'') (data table_some_bad_dates) =
     [NaN, Stamp (2023, 1, 1), NaN, Stamp (2023, 1, 3)] \<and>
   [cleaned (Stamp (2023, 1, 3)), cleaned (Stamp (2023, 1, 1)), cleaned NaN, cleaned NaN] =
     filter (\<lambda>r. date r \<noteq> NaN)
       [cleaned (Stamp (2023, 1, 3)), cleaned (Stamp (2023, 1, 1)), cleaned NaN, cleaned NaN] @
     filter (\<lambda>r. date r = NaN)
       [cleaned (Stamp (2023, 1, 3)), cleaned (Stamp (2023, 1, 1)), cleaned NaN, cleaned NaN]"
proof -
  have h: "get_stock_data (read_as table_some_bad_dates) scraper_ok ''0000'' =
     (load_logs ''0000'' @ [Info_date_before, Info_yy_attempt, Info_date_after, Info_success 4],
      Inr (Some [cleaned (Stamp (2023, 1, 3)), cleaned (Stamp (2023, 1, 1)), cleaned NaN,
                 cleaned NaN]))"
    by code_simp
  have d: "map (\<lambda>r. to_datetime1 (hd r) ''%y/%m/%d'') (data table_some_bad_dates) =
     [NaN, Stamp (2023, 1, 1), NaN, Stamp (2023, 1, 3)]"
    by code_simp
  show ?thesis
    using h d null_dates_come_last [OF h] by simp
qed

text \<open>
  C9. \<open>close_driver\<close> never raises: it returns whatever \<open>quit\<close> does, and so does a
  second call after it. Without the attribute \<open>driver\<close> it does nothing, and a failure
  of \<open>quit\<close> is logged as an error and not passed on.
\<close>

theorem close_driver_never_raises:
  "(\<exists>l self'. close_driver self = (l, Inr self')) \<and>
   (\<exists>l self''. then_do (close_driver self) close_driver = (l, Inr self'')) \<and>
   (driver self = None \<longrightarrow> close_driver self = ([], Inr self)) \<and>
   (\<forall>d e. driver self = Some d \<and> quit_outcome d (quits d) = Some e \<longrightarrow>
      (\<exists>self'. close_driver self = ([Err_quit], Inr self'))) \<and>
   (\<forall>d. driver self = Some d \<and> quit_outcome d (quits d) = None \<longrightarrow>
      (\<exists>self'. close_driver self = ([Info_quit], Inr self')))"
proof -
  have r: "\<exists>l s'. close_driver s = (l, Inr s')" for s
    by (simp add: close_driver_def Let_def split: option.splits)
  obtain l1 s1 where c1: "close_driver self = (l1, Inr s1)" using r by blast
  obtain l2 s2 where c2: "close_driver s1 = (l2, Inr s2)" using r by blast
  have two: "\<exists>l self''. then_do (close_driver self) close_driver = (l, Inr self'')"
    by (simp add: c1 c2)
  show ?thesis
    using r [of self] two
    by (auto simp: close_driver_def Let_def)
qed

theorem close_driver_never_raises_witness:
  "close_driver \<lparr>driver = None\<rparr> = ([], Inr \<lparr>driver = None\<rparr>) \<and>
   fst (close_driver \<lparr>driver = Some browser_quit_fails\<rparr>) = [Info_quit] \<and>
   fst (then_do (close_driver \<lparr>driver = Some browser_quit_fails\<rparr>) close_driver) =
     [Info_quit, Err_quit] \<and>
   (\<exists>l self''. then_do (close_driver \<lparr>driver = Some browser_quit_fails\<rparr>) close_driver =
      (l, Inr self''))"
proof -
  have a: "driver \<lparr>driver = None\<rparr> = None" by simp
  have b: "fst (close_driver \<lparr>driver = Some browser_quit_fails\<rparr>) = [Info_quit]"
    by (simp add: close_driver_def browser_quit_fails_def browser_ok_def Let_def)
  have c: "fst (then_do (close_driver \<lparr>driver = Some browser_quit_fails\<rparr>) close_driver) =
     [Info_quit, Err_quit]"
    by (simp add: close_driver_def browser_quit_fails_def browser_ok_def Let_def)
  show ?thesis
    using a b c close_driver_never_raises [of "\<lparr>driver = None\<rparr>"]
      close_driver_never_raises [of "\<lparr>driver = Some browser_quit_fails\<rparr>"]
    by simp
qed

text \<open>
  With exactly 8 columns and at least one row, every row is returned: the frame is a
  rearrangement of the cleaned rows, and a date text that the two-digit format does
  not parse gives a row with a null date.
\<close>

lemma rows_kept:
  assumes "load_table read_html self stock_code = (l0, Inr df)"
    and "length (columns df) = 8"
    and "data df \<noteq> []"
  shows "\<exists>l rows. get_stock_data read_html self stock_code = (l, Inr (Some rows)) \<and>
           length rows = length (data df) \<and> mset rows = mset (parsed_rows df)"
  using get_stock_data_ok [OF assms] by simp

lemma unparsed_date_is_null:
  assumes "i < length (data df)"
    and "cell_at (data df ! i) 0 = Str s"
    and "strptime s ''%y/%m/%d'' = None"
  shows "date (parsed_rows df ! i) = NaN"
  using assms by (simp add: parsed_rows_date_Str to_datetime1_def)

lemma cleaned_row_of_raw:
  assumes "r \<in> set (parsed_rows df)"
  shows "\<exists>raw\<in>set (data df).
           open_price r = to_numeric1 (price_text (cell_at raw 1)) \<and>
           high_price r = to_numeric1 (price_text (cell_at raw 2)) \<and>
           low_price r = to_numeric1 (price_text (cell_at raw 3)) \<and>
           close_price r = to_numeric1 (price_text (cell_at raw 4)) \<and>
           change r = to_numeric1 (price_text (cell_at raw 5)) \<and>
           change_percent r = to_numeric1 (percent_text (cell_at raw 6)) \<and>
           volume r = to_numeric1 (volume_text (cell_at raw 7))"
proof -
  obtain i where i: "i < length (data df)" and r: "r = parsed_rows df ! i"
    using assms by (metis in_set_conv_nth length_parsed_rows)
  have "data df ! i \<in> set (data df)" using i by simp
  moreover have "open_price r = to_numeric1 (price_text (cell_at (data df ! i) 1)) \<and>
           high_price r = to_numeric1 (price_text (cell_at (data df ! i) 2)) \<and>
           low_price r = to_numeric1 (price_text (cell_at (data df ! i) 3)) \<and>
           close_price r = to_numeric1 (price_text (cell_at (data df ! i) 4)) \<and>
           change r = to_numeric1 (price_text (cell_at (data df ! i) 5)) \<and>
           change_percent r = to_numeric1 (percent_text (cell_at (data df ! i) 6)) \<and>
           volume r = to_numeric1 (volume_text (cell_at (data df ! i) 7))"
    unfolding r by (simp add: parsed_rows_nth [OF i])
  ultimately show ?thesis by blast
qed



text \<open>
  C4. Every call of \<open>get_stock_data\<close> returns: when the \<open>try\<close> block raises, one of
  the handlers logs and the result is \<open>None\<close>. The second half of the claim, that
  cleaning a table with 8 or more columns never raises, fails in the code: with 9
  columns the assignment of the labels raises \<open>ValueError\<close>, and with no row the read of
  the first date raises \<open>IndexError\<close> (both are then turned into \<open>None\<close>).
\<close>

theorem exceptions_become_None:
  "(\<exists>l r. get_stock_data read_html self stock_code = (l, Inr r)) \<and>
   (\<forall>l e. fetch_block read_html self stock_code = (l, Inl e) \<longrightarrow>
      get_stock_data read_html self stock_code = (l @ [handler_log e], Inr None)) \<and>
   8 \<le> length (columns table_nine_columns) \<and>
   clean_table table_nine_columns = ([], Inl ValueError) \<and>
   8 \<le> length (columns table_no_rows) \<and>
   clean_table table_no_rows = ([], Inl IndexError)"
proof -
  have a: "\<exists>l r. get_stock_data read_html self stock_code = (l, Inr r)"
    by (rule get_stock_data_returns)
  have b: "\<forall>l e. fetch_block read_html self stock_code = (l, Inl e) \<longrightarrow>
      get_stock_data read_html self stock_code = (l @ [handler_log e], Inr None)"
    by (simp add: get_stock_data_def)
  have c: "8 < length (columns table_nine_columns)"
    by (simp add: table_nine_columns_def header_def)
  have d: "length (columns table_no_rows) = 8" "data table_no_rows = []"
    by (simp_all add: table_no_rows_def header_def)
  show ?thesis
    using a b c d clean_table_too_many [OF c] clean_table_no_rows [OF d] by simp
qed

theorem exceptions_become_None_witness:
  "fetch_block (read_as table_one_day) \<lparr>driver = Some browser_timeout\<rparr> ''0000'' =
     ([Info_url (url_of ''0000'')], Inl TimeoutException) \<and>
   get_stock_data (read_as table_one_day) \<lparr>driver = Some browser_timeout\<rparr> ''0000'' =
     ([Info_url (url_of ''0000''), Err_timeout], Inr None) \<and>
   fetch_block (read_as table_nine_columns) scraper_ok ''0000'' =
     (load_logs ''0000'', Inl ValueError) \<and>
   get_stock_data (read_as table_nine_columns) scraper_ok ''0000'' =
     (load_logs ''0000'' @ [Err_value], Inr None)"
proof -
  have h1: "fetch_block (read_as table_one_day) \<lparr>driver = Some browser_timeout\<rparr> ''0000'' =
     ([Info_url (url_of ''0000'')], Inl TimeoutException)"
    by (simp add: fetch_block_def load_table_def url_of_def raise_if_def Let_def
        browser_timeout_def browser_ok_def)
  have c: "8 < length (columns table_nine_columns)"
    by (simp add: table_nine_columns_def header_def)
  have h2: "fetch_block (read_as table_nine_columns) scraper_ok ''0000'' =
     (load_logs ''0000'', Inl ValueError)"
    by (simp add: fetch_block_def load_table_ok clean_table_too_many [OF c])
  have t: "handler_log TimeoutException = Err_timeout" "handler_log ValueError = Err_value"
    by (simp_all add: handler_log_def is_WebDriverException_def)
  show ?thesis
    using h1 h2 t
      exceptions_become_None [of "read_as table_one_day" "\<lparr>driver = Some browser_timeout\<rparr>" "''0000''"]
      exceptions_become_None [of "read_as table_nine_columns" scraper_ok "''0000''"]
    by simp
qed

text \<open>
  C8. The claim: for every table that passes the column-count gate the returned frame
  has as many rows as the table. A table with 9 columns and one row passes the gate and
  the result is \<open>None\<close>, and so it is for a table with 8 columns and no row: there is no
  returned frame whose rows could be counted. (With exactly 8 columns and at least one
  row the rows are kept: lemmas \<open>rows_kept\<close> and \<open>unparsed_date_is_null\<close>.)
\<close>

theorem gate_passed_and_no_rows_returned:
  "8 \<le> length (columns table_nine_columns) \<and> length (data table_nine_columns) = 1 \<and>
   snd (get_stock_data (read_as table_nine_columns) scraper_ok ''0000'') = Inr None \<and>
   8 \<le> length (columns table_no_rows) \<and> length (data table_no_rows) = 0 \<and>
   snd (get_stock_data (read_as table_no_rows) scraper_ok ''0000'') = Inr None"
  by code_simp

end
